theory Spec2Isabelle
  imports Main "HOL-Library.AList"
begin

section \<open>Python strings\<close>

text \<open>
  A Python \<open>str\<close> is modelled as a \<open>string\<close>, a list of characters, each read as a
  code point below 256. \<open>str.isspace\<close> is exact on that range: tab, line feed,
  vertical tab, form feed, carriage return, the four separators 0x1C-0x1F, the space,
  and the two whitespace code points above 127, 0x85 and 0xA0. \<open>str.upper\<close> and
  \<open>str.lower\<close> are those of Python on ASCII text only: they map the letters a-z and
  A-Z and leave every other character alone, whereas Python also maps letters above 127,
  some of them to code points beyond 255 or to two characters. The statements about
  case below therefore assume, through \<open>isascii\<close>, that the strings involved are ASCII.
\<close>

definition isspace :: "char \<Rightarrow> bool" where
  "isspace c = (let n = (of_char c :: nat)
                in (9 \<le> n \<and> n \<le> 13) \<or> (28 \<le> n \<and> n \<le> 32) \<or> n = 133 \<or> n = 160)"

definition isascii :: "string \<Rightarrow> bool" where
  "isascii s = list_all (\<lambda>c. (of_char c :: nat) < 128) s"

definition upper_char :: "char \<Rightarrow> char" where
  "upper_char c = (let n = (of_char c :: nat) in if 97 \<le> n \<and> n \<le> 122 then char_of (n - 32) else c)"

definition lower_char :: "char \<Rightarrow> char" where
  "lower_char c = (let n = (of_char c :: nat) in if 65 \<le> n \<and> n \<le> 90 then char_of (n + 32) else c)"

definition upper :: "string \<Rightarrow> string" where
  "upper s = map upper_char s"

definition lower :: "string \<Rightarrow> string" where
  "lower s = map lower_char s"

definition lstrip :: "string \<Rightarrow> string" where
  "lstrip s = dropWhile isspace s"

definition rstrip :: "string \<Rightarrow> string" where
  "rstrip s = rev (dropWhile isspace (rev s))"

definition strip :: "string \<Rightarrow> string" where
  "strip s = rstrip (lstrip s)"

section \<open>Python dictionaries\<close>

text \<open>
  A \<open>dict\<close> keeps its items in insertion order, and the order is observable here (the
  name scan takes the first match), so a dictionary is an association list. Assigning
  to a key that is present replaces its value in place; assigning to a new key appends
  the item. A list is a dictionary when its keys are distinct.
\<close>

type_synonym ('k, 'v) dict = "('k \<times> 'v) list"

datatype py_error = KeyError | NotFoundError

definition wf_dict :: "('k, 'v) dict \<Rightarrow> bool" where
  "wf_dict d = distinct (map fst d)"

definition dict_setitem :: "'k \<Rightarrow> 'v \<Rightarrow> ('k, 'v) dict \<Rightarrow> ('k, 'v) dict" where
  "dict_setitem k v d = AList.update k v d"

definition dict_contains :: "('k, 'v) dict \<Rightarrow> 'k \<Rightarrow> bool" where
  "dict_contains d k = (k \<in> set (map fst d))"

definition dict_getitem :: "('k, 'v) dict \<Rightarrow> 'k \<Rightarrow> py_error + 'v" where
  "dict_getitem d k = (case map_of d k of None \<Rightarrow> Inl KeyError | Some v \<Rightarrow> Inr v)"

definition keys :: "('k, 'v) dict \<Rightarrow> 'k list" where
  "keys d = map fst d"

text \<open>A name dictionary all of whose names and ticker symbols are ASCII.\<close>

definition ascii_dict :: "(string, string) dict \<Rightarrow> bool" where
  "ascii_dict d = list_all (\<lambda>(n, t). isascii n \<and> isascii t) d"

section \<open>The server state\<close>

text \<open>
  \<open>kg = FinanceKG()\<close> is the one service object of the server. Its class lives in the
  module \<open>finance\<close>, which is not part of the sources at hand: \<open>name_dict\<close> (company
  name to ticker symbol) is taken as given, and the data methods the tools delegate to
  are opaque functions of the ticker string they receive.
\<close>

record 'r FinanceKG =
  name_dict :: "(string, string) dict"
  kg_get_price_history :: "string \<Rightarrow> 'r"
  kg_get_detailed_price_history :: "string \<Rightarrow> 'r"
  kg_get_dividends_history :: "string \<Rightarrow> 'r"
  kg_get_market_capitalization :: "string \<Rightarrow> 'r"
  kg_get_eps :: "string \<Rightarrow> 'r"
  kg_get_pe_ratio :: "string \<Rightarrow> 'r"
  kg_get_info :: "string \<Rightarrow> 'r"

section \<open>match_ticker_or_name\<close>

text \<open>The three messages the tool formats (0x22 is the double quote, 0x0A the newline).\<close>

definition ticker_message :: "string \<Rightarrow> string \<Rightarrow> string \<Rightarrow> string" where
  "ticker_message query company_name symbol =
     [CHR 0x22] @ query @ [CHR 0x22] @ '' is recognized as a ticker symbol.'' @ [CHR 0x0A]
     @ ''Company Name: '' @ company_name @ [CHR 0x0A] @ ''Ticker Symbol: '' @ symbol"

definition name_message :: "string \<Rightarrow> string \<Rightarrow> string \<Rightarrow> string" where
  "name_message query company_name ticker =
     [CHR 0x22] @ query @ [CHR 0x22] @ '' is recognized as a company name.'' @ [CHR 0x0A]
     @ ''Company Name: '' @ company_name @ [CHR 0x0A] @ ''Ticker Symbol: '' @ ticker"

definition not_recognized_message :: "string \<Rightarrow> string" where
  "not_recognized_message query =
     [CHR 0x22] @ query @ [CHR 0x22]
     @ '' is not recognized as either a valid company name or ticker symbol in the Finance KG.''"

text \<open>
  The comprehension \<open>{v.upper(): k for k, v in name_to_symbol.items()}\<close>: the items are
  visited in order and each one is assigned under its uppercased ticker.
\<close>

definition symbol_to_name :: "(string, string) dict \<Rightarrow> (string, string) dict" where
  "symbol_to_name name_to_symbol =
     fold (\<lambda>(k, v) d. dict_setitem (upper v) k d) name_to_symbol []"

definition match_ticker_or_name :: "'r FinanceKG \<Rightarrow> string \<Rightarrow> py_error + string" where
  "match_ticker_or_name kg query =
     (let query_norm = strip query;
          name_to_symbol = name_dict kg;
          sym = symbol_to_name name_to_symbol
      in if dict_contains sym (upper query_norm) then
           (case dict_getitem sym (upper query_norm) of
              Inl e \<Rightarrow> Inl e
            | Inr company_name \<Rightarrow>
                Inr (ticker_message query company_name (upper query_norm)))
         else
           (let matches = filter (\<lambda>name. lower name = lower query) (keys name_to_symbol)
            in case matches of
                 company_name # _ \<Rightarrow>
                   (case dict_getitem name_to_symbol company_name of
                      Inl e \<Rightarrow> Inl e
                    | Inr ticker \<Rightarrow> Inr (name_message query company_name ticker))
               | [] \<Rightarrow> Inr (not_recognized_message query)))"

subsection \<open>The same body over a store of dictionary objects\<close>

text \<open>
  Python dictionaries are objects: \<open>name_to_symbol = kg.name_dict\<close> is a second
  reference to the dictionary of the service object, not a copy, and the comprehension
  creates a new dictionary and assigns into it. To speak of what a call leaves behind,
  the body is written once more over a store, a list of dictionaries addressed by
  their position. \<open>kg.name_dict\<close> is an address; a new dictionary gets the next free
  address; an assignment updates the dictionary at its address. The dictionary that is
  iterated and the one that is assigned to are different objects, so the items visited
  are those found at the start of the loop. A call returns its result and the store it
  leaves.
\<close>

type_synonym store = "(string, string) dict list"

definition new_dict :: "store \<Rightarrow> nat \<times> store" where
  "new_dict h = (length h, h @ [[]])"

definition store_setitem :: "nat \<Rightarrow> string \<Rightarrow> string \<Rightarrow> store \<Rightarrow> store" where
  "store_setitem a k v h = h[a := dict_setitem k v (h ! a)]"

definition build_symbol_to_name :: "nat \<Rightarrow> store \<Rightarrow> nat \<times> store" where
  "build_symbol_to_name name_to_symbol h =
     (let (a, h1) = new_dict h
      in (a, fold (\<lambda>(k, v) s. store_setitem a (upper v) k s) (h ! name_to_symbol) h1))"

definition match_ticker_or_name_store ::
    "nat \<Rightarrow> string \<Rightarrow> store \<Rightarrow> (py_error + string) \<times> store" where
  "match_ticker_or_name_store kg_name_dict query h =
     (let query_norm = strip query;
          name_to_symbol = kg_name_dict;
          (sym, h1) = build_symbol_to_name name_to_symbol h
      in (if dict_contains (h1 ! sym) (upper query_norm) then
            (case dict_getitem (h1 ! sym) (upper query_norm) of
               Inl e \<Rightarrow> Inl e
             | Inr company_name \<Rightarrow>
                 Inr (ticker_message query company_name (upper query_norm)))
          else
            (let matches = filter (\<lambda>name. lower name = lower query) (keys (h1 ! name_to_symbol))
             in case matches of
                  company_name # _ \<Rightarrow>
                    (case dict_getitem (h1 ! name_to_symbol) company_name of
                       Inl e \<Rightarrow> Inl e
                     | Inr ticker \<Rightarrow> Inr (name_message query company_name ticker))
                | [] \<Rightarrow> Inr (not_recognized_message query)),
          h1))"

section \<open>get_ticker_by_name\<close>

text \<open>
  Modelled from the spec: the method \<open>FinanceKG.get_ticker_by_name\<close> of the module
  \<open>finance\<close>, which is not among the sources. The spec (4.3) has it look the name up
  as an exact, case-sensitive key of the name index and signal \<open>NotFoundError\<close> when
  the name is absent.
\<close>

definition kg_get_ticker_by_name :: "'r FinanceKG \<Rightarrow> string \<Rightarrow> py_error + string" where
  "kg_get_ticker_by_name kg name =
     (case map_of (name_dict kg) name of None \<Rightarrow> Inl NotFoundError | Some ticker \<Rightarrow> Inr ticker)"

text \<open>The tool itself hands its argument to that method and returns what it returns.\<close>

definition get_ticker_by_name :: "'r FinanceKG \<Rightarrow> string \<Rightarrow> py_error + string" where
  "get_ticker_by_name kg company_name = kg_get_ticker_by_name kg company_name"

section \<open>The data tools\<close>

text \<open>Each of the seven tools is one call of the method of the same name.\<close>

definition get_price_history :: "'r FinanceKG \<Rightarrow> string \<Rightarrow> 'r" where
  "get_price_history kg ticker_name = kg_get_price_history kg ticker_name"

definition get_detailed_price_history :: "'r FinanceKG \<Rightarrow> string \<Rightarrow> 'r" where
  "get_detailed_price_history kg ticker_name = kg_get_detailed_price_history kg ticker_name"

definition get_dividends_history :: "'r FinanceKG \<Rightarrow> string \<Rightarrow> 'r" where
  "get_dividends_history kg ticker_name = kg_get_dividends_history kg ticker_name"

definition get_market_capitalization :: "'r FinanceKG \<Rightarrow> string \<Rightarrow> 'r" where
  "get_market_capitalization kg ticker_name = kg_get_market_capitalization kg ticker_name"

definition get_eps :: "'r FinanceKG \<Rightarrow> string \<Rightarrow> 'r" where
  "get_eps kg ticker_name = kg_get_eps kg ticker_name"

definition get_pe_ratio :: "'r FinanceKG \<Rightarrow> string \<Rightarrow> 'r" where
  "get_pe_ratio kg ticker_name = kg_get_pe_ratio kg ticker_name"

definition get_info :: "'r FinanceKG \<Rightarrow> string \<Rightarrow> 'r" where
  "get_info kg ticker_name = kg_get_info kg ticker_name"

section \<open>Concrete service objects\<close>

text \<open>
  A service object over a given name dictionary whose data methods answer with the very
  ticker string they were called with, so that the argument a tool forwards can be read
  off the tool's result.
\<close>

definition echo_kg :: "(string, string) dict \<Rightarrow> string FinanceKG" where
  "echo_kg d = \<lparr> name_dict = d,
     kg_get_price_history = (\<lambda>t. t), kg_get_detailed_price_history = (\<lambda>t. t),
     kg_get_dividends_history = (\<lambda>t. t), kg_get_market_capitalization = (\<lambda>t. t),
     kg_get_eps = (\<lambda>t. t), kg_get_pe_ratio = (\<lambda>t. t), kg_get_info = (\<lambda>t. t) \<rparr>"

text \<open>The index of the spec's concrete scenarios.\<close>

definition tesla_microsoft :: "(string, string) dict" where
  "tesla_microsoft =
     [(''Tesla Inc. Common Stock'', ''TSLA''), (''Microsoft Corporation Common Stock'', ''MSFT'')]"

text \<open>A company that is named like another company's ticker symbol.\<close>

definition msft_named_x :: "(string, string) dict" where
  "msft_named_x = [(''MSFT'', ''X''), (''Microsoft Corporation Common Stock'', ''MSFT'')]"

text \<open>Two companies whose ticker symbols differ in case only.\<close>

definition ab_twice :: "(string, string) dict" where
  "ab_twice = [(''Alpha Holdings'', ''ab''), (''Beta Group'', ''AB'')]"

section \<open>Case mapping and stripping\<close>

lemma upper_char_lower_char: "upper_char (lower_char c) = upper_char c"
  unfolding upper_char_def lower_char_def Let_def by auto

lemma lower_char_upper_char: "lower_char (upper_char c) = lower_char c"
  unfolding upper_char_def lower_char_def Let_def by auto

lemma upper_char_idem: "upper_char (upper_char c) = upper_char c"
  unfolding upper_char_def Let_def by auto

lemma lower_char_idem: "lower_char (lower_char c) = lower_char c"
  unfolding lower_char_def Let_def by auto

lemma isspace_upper_char: "isspace (upper_char c) = isspace c"
  unfolding upper_char_def isspace_def Let_def by auto

lemma isspace_lower_char: "isspace (lower_char c) = isspace c"
  unfolding lower_char_def isspace_def Let_def by auto

lemma upper_lower: "upper (lower s) = upper s"
  by (simp add: upper_def lower_def upper_char_lower_char)

lemma lower_upper: "lower (upper s) = lower s"
  by (simp add: upper_def lower_def lower_char_upper_char)

lemma upper_upper: "upper (upper s) = upper s"
  by (simp add: upper_def upper_char_idem)

lemma lower_lower: "lower (lower s) = lower s"
  by (simp add: lower_def lower_char_idem)

text \<open>Stripping commutes with any character map that keeps whitespace whitespace.\<close>

lemma strip_map:
  assumes "\<And>c. isspace (f c) = isspace c"
  shows "strip (map f s) = map f (strip s)"
proof -
  have "isspace \<circ> f = isspace" using assms by (simp add: fun_eq_iff)
  then show ?thesis
    by (simp add: strip_def lstrip_def rstrip_def dropWhile_map rev_map)
qed

lemma strip_upper: "strip (upper s) = upper (strip s)"
  unfolding upper_def by (rule strip_map) (rule isspace_upper_char)

lemma strip_lower: "strip (lower s) = lower (strip s)"
  unfolding lower_def by (rule strip_map) (rule isspace_lower_char)

lemma isspace_space: "isspace CHR '' ''"
  by (simp add: isspace_def)

lemma strip_padded: "strip ('' '' @ s @ '' '') = strip s"
proof (cases "\<forall>c\<in>set s. isspace c")
  case True
  then have empty: "dropWhile isspace s = []" by simp
  show ?thesis
    by (simp add: strip_def lstrip_def rstrip_def isspace_space dropWhile_append empty)
next
  case False
  then show ?thesis
    by (auto simp add: strip_def lstrip_def rstrip_def isspace_space dropWhile_append)
qed

section \<open>The symbol dictionary as a map\<close>

lemma map_of_fold_setitem:
  "map_of (fold (\<lambda>(k, v) d. dict_setitem (upper v) k d) xs acc)
     = map_of acc ++ map_of (rev (map (\<lambda>(k, v). (upper v, k)) xs))"
proof (induction xs arbitrary: acc)
  case Nil
  show ?case by simp
next
  case (Cons x xs)
  obtain k v where x: "x = (k, v)" by (cases x)
  let ?M = "map_of (rev (map (\<lambda>(k, v). (upper v, k)) xs))"
  have step: "map_of (dict_setitem (upper v) k acc) = map_of acc ++ [upper v \<mapsto> k]"
    by (simp add: dict_setitem_def update_conv')
  have "map_of (fold (\<lambda>(k, v) d. dict_setitem (upper v) k d) (x # xs) acc)
          = map_of (dict_setitem (upper v) k acc) ++ ?M"
    by (simp add: x Cons.IH)
  also have "\<dots> = map_of acc ++ ([upper v \<mapsto> k] ++ ?M)"
    by (simp only: step map_add_assoc)
  also have "[upper v \<mapsto> k] ++ ?M = map_of (rev (map (\<lambda>(k, v). (upper v, k)) (x # xs)))"
    by (simp add: x)
  finally show ?case .
qed

lemma map_of_symbol_to_name:
  "map_of (symbol_to_name d) = map_of (rev (map (\<lambda>(k, v). (upper v, k)) d))"
  by (simp add: symbol_to_name_def map_of_fold_setitem)

lemma dict_contains_map_of: "dict_contains d k \<longleftrightarrow> map_of d k \<noteq> None"
  by (simp add: dict_contains_def map_of_eq_None_iff)

lemma symbol_to_name_None:
  "map_of (symbol_to_name d) s = None \<longleftrightarrow> (\<forall>(n, t) \<in> set d. upper t \<noteq> s)"
  by (force simp: map_of_symbol_to_name map_of_eq_None_iff image_iff)

lemma symbol_to_name_stored:
  assumes "(n, t) \<in> set d"
  shows "\<exists>m. map_of (symbol_to_name d) (upper t) = Some m"
proof -
  have "\<not> (\<forall>(n', t') \<in> set d. upper t' \<noteq> upper t)"
    using assms by blast
  then have "map_of (symbol_to_name d) (upper t) \<noteq> None"
    by (simp only: symbol_to_name_None not_False_eq_True)
  then show ?thesis by blast
qed

lemma wf_dict_fold_setitem:
  "wf_dict acc \<Longrightarrow> wf_dict (fold (\<lambda>(k, v) d. dict_setitem (upper v) k d) xs acc)"
  by (induction xs arbitrary: acc)
     (auto simp: wf_dict_def dict_setitem_def distinct_update)

lemma symbol_to_name_SomeD:
  assumes "map_of (symbol_to_name d) s = Some n"
  shows "\<exists>t. (n, t) \<in> set d \<and> upper t = s"
  using map_of_SomeD[OF assms[unfolded map_of_symbol_to_name]] by auto

lemma symbol_to_name_last:
  assumes "d = xs @ (n, t) # ys" and "\<forall>(n', t') \<in> set ys. upper t' \<noteq> upper t"
  shows "map_of (symbol_to_name d) (upper t) = Some n"
proof -
  have "map_of (rev (map (\<lambda>(k, v). (upper v, k)) ys)) (upper t) = None"
    using assms(2) by (force simp: map_of_eq_None_iff image_iff)
  then show ?thesis
    by (simp add: map_of_symbol_to_name assms(1) map_add_def)
qed

lemma symbol_to_name_unique:
  assumes "distinct (map (upper \<circ> snd) d)" and "(n, t) \<in> set d"
  shows "map_of (symbol_to_name d) (upper t) = Some n"
proof -
  have "map fst (rev (map (\<lambda>(k, v). (upper v, k)) d)) = rev (map (upper \<circ> snd) d)"
    by (simp add: rev_map comp_def case_prod_beta)
  then have "distinct (map fst (rev (map (\<lambda>(k, v). (upper v, k)) d)))"
    using assms(1) by simp
  moreover have "(upper t, n) \<in> set (rev (map (\<lambda>(k, v). (upper v, k)) d))"
    using assms(2) by force
  ultimately show ?thesis
    unfolding map_of_symbol_to_name by (rule map_of_is_SomeI)
qed

section \<open>The three outcomes of match_ticker_or_name\<close>

lemma match_ticker:
  assumes "map_of (symbol_to_name (name_dict kg)) (upper (strip q)) = Some n"
  shows "match_ticker_or_name kg q = Inr (ticker_message q n (upper (strip q)))"
  using assms by (simp add: match_ticker_or_name_def dict_contains_map_of dict_getitem_def)

lemma match_name:
  assumes "map_of (symbol_to_name (name_dict kg)) (upper (strip q)) = None"
    and "filter (\<lambda>name. lower name = lower q) (keys (name_dict kg)) = c # rest"
    and "map_of (name_dict kg) c = Some t"
  shows "match_ticker_or_name kg q = Inr (name_message q c t)"
  using assms by (simp add: match_ticker_or_name_def dict_contains_map_of dict_getitem_def)

lemma match_none:
  assumes "map_of (symbol_to_name (name_dict kg)) (upper (strip q)) = None"
    and "filter (\<lambda>name. lower name = lower q) (keys (name_dict kg)) = []"
  shows "match_ticker_or_name kg q = Inr (not_recognized_message q)"
  using assms by (simp add: match_ticker_or_name_def dict_contains_map_of dict_getitem_def)

text \<open>
  The two dictionary reads of the body cannot fail: the first is guarded by the
  membership test, the second reads a key the scan has just taken from the dictionary.
\<close>

lemma match_ticker_or_name_returns: "\<exists>s. match_ticker_or_name kg q = Inr s"
proof (cases "map_of (symbol_to_name (name_dict kg)) (upper (strip q))")
  case (Some n)
  then show ?thesis using match_ticker by blast
next
  case None
  show ?thesis
  proof (cases "filter (\<lambda>name. lower name = lower q) (keys (name_dict kg))")
    case Nil
    with None show ?thesis using match_none by blast
  next
    case (Cons c rest)
    then have "c \<in> set (filter (\<lambda>name. lower name = lower q) (keys (name_dict kg)))"
      by simp
    then have "map_of (name_dict kg) c \<noteq> None"
      by (simp add: keys_def map_of_eq_None_iff)
    then obtain t where "map_of (name_dict kg) c = Some t" by blast
    with None Cons show ?thesis using match_name by blast
  qed
qed

section \<open>The body over the store\<close>

lemma fold_store_setitem:
  assumes "a < length s"
  shows "fold (\<lambda>(k, v) s. store_setitem a (upper v) k s) xs s
           = s[a := fold (\<lambda>(k, v) d. dict_setitem (upper v) k d) xs (s ! a)]"
  using assms
proof (induction xs arbitrary: s)
  case Nil
  then show ?case by simp
next
  case (Cons x xs)
  obtain k v where x: "x = (k, v)" by (cases x)
  have len: "a < length (store_setitem a (upper v) k s)"
    using Cons.prems by (simp add: store_setitem_def)
  show ?case
    using Cons.prems by (simp add: x Cons.IH[OF len]) (simp add: store_setitem_def)
qed

lemma build_symbol_to_name_eq:
  "build_symbol_to_name r h = (length h, h @ [symbol_to_name (h ! r)])"
proof -
  have "fold (\<lambda>(k, v) s. store_setitem (length h) (upper v) k s) (h ! r) (h @ [[]])
          = (h @ [[]])[length h := symbol_to_name (h ! r)]"
    by (simp add: fold_store_setitem symbol_to_name_def)
  then show ?thesis
    by (simp add: build_symbol_to_name_def new_dict_def)
qed

text \<open>
  Over a store in which \<open>kg.name_dict\<close> is a valid address, the body returns what the
  body over values returns on the dictionary at that address, and leaves the store
  with one more dictionary at its end.
\<close>

lemma match_ticker_or_name_store_eq:
  assumes "r < length h" and "name_dict kg = h ! r"
  shows "match_ticker_or_name_store r q h
           = (match_ticker_or_name kg q, h @ [symbol_to_name (h ! r)])"
  using assms
  by (simp add: match_ticker_or_name_store_def match_ticker_or_name_def
        build_symbol_to_name_eq nth_append Let_def)

section \<open>Messages\<close>

lemma ticker_message_neq_name_message:
  "ticker_message q a b \<noteq> name_message q c d"
  by (simp add: ticker_message_def name_message_def)

section \<open>Resolving a query\<close>

subsection \<open>Stored tickers\<close>

text \<open>
  Claim C1 as written covers every stored ticker. The query is stripped before the
  symbol lookup, the stored ticker is only uppercased: a ticker stored with a leading
  blank is not found under its own spelling.
\<close>

theorem padded_stored_ticker_not_recognized:
  "name_dict (echo_kg [(''X Corp'', '' X'')]) = [(''X Corp'', '' X'')]
   \<and> match_ticker_or_name (echo_kg [(''X Corp'', '' X'')]) '' X''
       = Inr (not_recognized_message '' X'')"
  by code_simp

text \<open>
  Claim C1, amended: over an index of ASCII names and tickers, for every stored ticker
  \<open>t\<close> that has no leading or trailing whitespace, the queries \<open>t\<close>, \<open>t.lower()\<close> and \<open>" " + t + " "\<close> each return the
  ticker message, with one and the same company name (a stored name whose ticker
  uppercases to \<open>t.upper()\<close>; the name stored with \<open>t\<close> when no two entries share an
  uppercased ticker) and the symbol \<open>t.upper()\<close>.
\<close>

theorem stored_ticker_variants_resolve:
  assumes "(n, t) \<in> set (name_dict kg)" and "strip t = t"
    and "ascii_dict (name_dict kg)"
  shows "\<exists>name.
           (\<exists>t'. (name, t') \<in> set (name_dict kg) \<and> upper t' = upper t)
         \<and> (distinct (map (upper \<circ> snd) (name_dict kg)) \<longrightarrow> name = n)
         \<and> match_ticker_or_name kg t = Inr (ticker_message t name (upper t))
         \<and> match_ticker_or_name kg (lower t) = Inr (ticker_message (lower t) name (upper t))
         \<and> match_ticker_or_name kg ('' '' @ t @ '' '')
             = Inr (ticker_message ('' '' @ t @ '' '') name (upper t))"
proof -
  let ?sym = "map_of (symbol_to_name (name_dict kg))"
  obtain name where name: "?sym (upper t) = Some name"
    using symbol_to_name_stored[OF assms(1)] by blast
  have k1: "upper (strip t) = upper t"
    by (simp add: assms(2))
  have k2: "upper (strip (lower t)) = upper t"
    by (simp add: strip_lower assms(2) upper_lower)
  have k3: "upper (strip ('' '' @ t @ '' '')) = upper t"
    by (simp only: strip_padded assms(2))
  have "\<exists>t'. (name, t') \<in> set (name_dict kg) \<and> upper t' = upper t"
    using name by (rule symbol_to_name_SomeD)
  moreover have "distinct (map (upper \<circ> snd) (name_dict kg)) \<longrightarrow> name = n"
    using symbol_to_name_unique[OF _ assms(1)] name by auto
  moreover have "match_ticker_or_name kg t = Inr (ticker_message t name (upper t))"
    using match_ticker[of kg t name] name by (simp only: k1)
  moreover have "match_ticker_or_name kg (lower t) = Inr (ticker_message (lower t) name (upper t))"
    using match_ticker[of kg "lower t" name] name by (simp only: k2)
  moreover have "match_ticker_or_name kg ('' '' @ t @ '' '')
                   = Inr (ticker_message ('' '' @ t @ '' '') name (upper t))"
    using match_ticker[of kg "'' '' @ t @ '' ''" name] name by (simp only: k3)
  ultimately show ?thesis by blast
qed

theorem stored_ticker_variants_resolve_witness:
  "(''Tesla Inc. Common Stock'', ''TSLA'') \<in> set (name_dict (echo_kg tesla_microsoft))
   \<and> strip ''TSLA'' = ''TSLA''
   \<and> match_ticker_or_name (echo_kg tesla_microsoft) ''TSLA''
       = Inr (ticker_message ''TSLA'' ''Tesla Inc. Common Stock'' ''TSLA'')
   \<and> match_ticker_or_name (echo_kg tesla_microsoft) ''tsla''
       = Inr (ticker_message ''tsla'' ''Tesla Inc. Common Stock'' ''TSLA'')
   \<and> match_ticker_or_name (echo_kg tesla_microsoft) '' TSLA ''
       = Inr (ticker_message '' TSLA '' ''Tesla Inc. Common Stock'' ''TSLA'')"
proof -
  have h1: "(''Tesla Inc. Common Stock'', ''TSLA'') \<in> set (name_dict (echo_kg tesla_microsoft))"
    by code_simp
  have h2: "strip ''TSLA'' = ''TSLA''"
    by code_simp
  have h3: "distinct (map (upper \<circ> snd) (name_dict (echo_kg tesla_microsoft)))"
    by code_simp
  have e1: "upper ''TSLA'' = ''TSLA''" and e2: "lower ''TSLA'' = ''tsla''"
    by code_simp+
  have h0: "ascii_dict (name_dict (echo_kg tesla_microsoft))"
    by code_simp
  from stored_ticker_variants_resolve[OF h1 h2 h0] h3
  have "match_ticker_or_name (echo_kg tesla_microsoft) ''TSLA''
          = Inr (ticker_message ''TSLA'' ''Tesla Inc. Common Stock'' ''TSLA'')
        \<and> match_ticker_or_name (echo_kg tesla_microsoft) ''tsla''
          = Inr (ticker_message ''tsla'' ''Tesla Inc. Common Stock'' ''TSLA'')
        \<and> match_ticker_or_name (echo_kg tesla_microsoft) '' TSLA ''
          = Inr (ticker_message '' TSLA '' ''Tesla Inc. Common Stock'' ''TSLA'')"
    by (auto simp: e1 e2)
  with h1 h2 show ?thesis by (intro conjI) simp_all
qed

subsection \<open>Stored names\<close>

text \<open>
  Claim C2 as written covers every stored name. The symbol check comes first, so a
  stored name that is spelled like another entry's ticker gets the ticker message.
\<close>

theorem stored_name_shadowed_by_ticker:
  "(''MSFT'', ''X'') \<in> set (name_dict (echo_kg msft_named_x))
   \<and> match_ticker_or_name (echo_kg msft_named_x) ''MSFT''
       = Inr (ticker_message ''MSFT'' ''Microsoft Corporation Common Stock'' ''MSFT'')"
  by code_simp

text \<open>
  Claim C2, amended: over an index of ASCII names and tickers, for every stored name
  \<open>n\<close> whose stripped, uppercased form is not the uppercased ticker of any entry, the
  queries \<open>n\<close>, \<open>n.upper()\<close> and \<open>n.lower()\<close> each return the company-name message
  with one and the same stored name and the ticker stored with it. That name is the
  first name, in the order of the dictionary, that equals \<open>n\<close> up to case: no name
  before it does. It is \<open>n\<close> itself, with the ticker stored for \<open>n\<close>, when no other
  stored name equals \<open>n\<close> up to case.
\<close>

theorem stored_name_variants_resolve:
  assumes "wf_dict (name_dict kg)" and "(n, tk) \<in> set (name_dict kg)"
    and "\<forall>(n', t') \<in> set (name_dict kg). upper t' \<noteq> upper (strip n)"
    and "ascii_dict (name_dict kg)"
  shows "\<exists>name ticker before after.
           keys (name_dict kg) = before @ name # after
         \<and> (\<forall>m \<in> set before. lower m \<noteq> lower n)
         \<and> lower name = lower n
         \<and> (name, ticker) \<in> set (name_dict kg)
         \<and> ((\<forall>m \<in> set (keys (name_dict kg)). lower m = lower n \<longrightarrow> m = n)
              \<longrightarrow> name = n \<and> ticker = tk)
         \<and> match_ticker_or_name kg n = Inr (name_message n name ticker)
         \<and> match_ticker_or_name kg (upper n) = Inr (name_message (upper n) name ticker)
         \<and> match_ticker_or_name kg (lower n) = Inr (name_message (lower n) name ticker)"
proof -
  let ?d = "name_dict kg"
  let ?hits = "filter (\<lambda>name. lower name = lower n) (keys ?d)"
  have n_key: "n \<in> set (keys ?d)"
    using assms(2) by (force simp: keys_def)
  then have "n \<in> set ?hits" by simp
  then obtain c rest where hits: "?hits = c # rest"
    by (cases ?hits) auto
  from hits obtain before after where split: "keys ?d = before @ c # after"
    and before: "\<forall>m \<in> set before. lower m \<noteq> lower n" and c_low: "lower c = lower n"
    unfolding filter_eq_Cons_iff by blast
  have c_key: "c \<in> set (keys ?d)" by (simp add: split)
  then have "map_of ?d c \<noteq> None"
    by (simp add: keys_def map_of_eq_None_iff)
  then obtain t where t: "map_of ?d c = Some t" by blast
  have stored: "(c, t) \<in> set ?d" using t by (rule map_of_SomeD)
  have no_sym: "map_of (symbol_to_name ?d) (upper (strip n)) = None"
    using assms(3) by (auto simp: symbol_to_name_None)
  have s_up: "upper (strip (upper n)) = upper (strip n)"
    by (simp add: strip_upper upper_upper)
  have s_lo: "upper (strip (lower n)) = upper (strip n)"
    by (simp add: strip_lower upper_lower)
  have r1: "match_ticker_or_name kg n = Inr (name_message n c t)"
    using no_sym hits t by (rule match_name)
  have r2: "match_ticker_or_name kg (upper n) = Inr (name_message (upper n) c t)"
  proof (rule match_name)
    show "map_of (symbol_to_name ?d) (upper (strip (upper n))) = None"
      by (simp only: s_up no_sym)
    show "filter (\<lambda>name. lower name = lower (upper n)) (keys ?d) = c # rest"
      by (simp only: lower_upper hits)
    show "map_of ?d c = Some t" by (rule t)
  qed
  have r3: "match_ticker_or_name kg (lower n) = Inr (name_message (lower n) c t)"
  proof (rule match_name)
    show "map_of (symbol_to_name ?d) (upper (strip (lower n))) = None"
      by (simp only: s_lo no_sym)
    show "filter (\<lambda>name. lower name = lower (lower n)) (keys ?d) = c # rest"
      by (simp only: lower_lower hits)
    show "map_of ?d c = Some t" by (rule t)
  qed
  have only: "(\<forall>m \<in> set (keys ?d). lower m = lower n \<longrightarrow> m = n) \<longrightarrow> c = n \<and> t = tk"
  proof
    assume u: "\<forall>m \<in> set (keys ?d). lower m = lower n \<longrightarrow> m = n"
    then have "c = n" using c_key c_low by blast
    moreover have "map_of ?d n = Some tk"
      using assms(1,2) by (simp add: wf_dict_def)
    ultimately show "c = n \<and> t = tk" using t by simp
  qed
  from split before c_low stored only r1 r2 r3 show ?thesis by blast
qed

theorem stored_name_variants_resolve_witness:
  "match_ticker_or_name (echo_kg tesla_microsoft) ''Tesla Inc. Common Stock''
     = Inr (name_message ''Tesla Inc. Common Stock'' ''Tesla Inc. Common Stock'' ''TSLA'')
   \<and> match_ticker_or_name (echo_kg tesla_microsoft) ''TESLA INC. COMMON STOCK''
     = Inr (name_message ''TESLA INC. COMMON STOCK'' ''Tesla Inc. Common Stock'' ''TSLA'')
   \<and> match_ticker_or_name (echo_kg tesla_microsoft) ''tesla inc. common stock''
     = Inr (name_message ''tesla inc. common stock'' ''Tesla Inc. Common Stock'' ''TSLA'')"
proof -
  let ?kg = "echo_kg tesla_microsoft"
  let ?n = "''Tesla Inc. Common Stock''"
  have h1: "wf_dict (name_dict ?kg)"
    by code_simp
  have h2: "(?n, ''TSLA'') \<in> set (name_dict ?kg)"
    by code_simp
  have h3: "\<forall>(n', t') \<in> set (name_dict ?kg). upper t' \<noteq> upper (strip ?n)"
    by code_simp
  have h4: "\<forall>m \<in> set (keys (name_dict ?kg)). lower m = lower ?n \<longrightarrow> m = ?n"
    by code_simp
  have h5: "ascii_dict (name_dict ?kg)"
    by code_simp
  have e1: "upper ?n = ''TESLA INC. COMMON STOCK''" and e2: "lower ?n = ''tesla inc. common stock''"
    by code_simp+
  from stored_name_variants_resolve[OF h1 h2 h3 h5] h4 show ?thesis
    unfolding e1 e2 by blast
qed

subsection \<open>A string that is both a ticker and a name\<close>

text \<open>
  Claim C3 as written covers every input that equals a stored ticker up to case. The
  symbol lookup uses the stripped input: an input that ends in a blank is never found
  there, also when a ticker is stored with that blank, and the name scan, which
  compares the input as typed, answers instead.
\<close>

theorem padded_ticker_loses_to_name:
  "name_dict (echo_kg [(''f '', ''FFF''), (''Ford Motor Company'', ''F '')])
     = [(''f '', ''FFF''), (''Ford Motor Company'', ''F '')]
   \<and> upper ''F '' = upper ''F '' \<and> lower ''F '' = lower ''f '' \<and> ''Ford Motor Company'' \<noteq> ''f ''
   \<and> match_ticker_or_name (echo_kg [(''f '', ''FFF''), (''Ford Motor Company'', ''F '')]) ''F ''
       = Inr (name_message ''F '' ''f '' ''FFF'')"
  by code_simp

text \<open>
  Claim C3, amended: over an index of ASCII names and tickers, if an ASCII input
  without leading or trailing whitespace equals, up to case, the stored ticker of one entry and the stored name of a different entry, the
  tool returns the ticker message and not the company-name message. The company named
  is a stored one whose ticker uppercases to the uppercased input: the entry of that
  ticker when no two entries share an uppercased ticker.
\<close>

theorem ticker_precedence:
  assumes "(n1, t1) \<in> set (name_dict kg)" and "upper q = upper t1"
    and "(n2, t2) \<in> set (name_dict kg)" and "lower q = lower n2" and "n1 \<noteq> n2"
    and "strip q = q"
    and "ascii_dict (name_dict kg)" and "isascii q"
  shows "\<exists>name.
           (\<exists>t'. (name, t') \<in> set (name_dict kg) \<and> upper t' = upper q)
         \<and> (distinct (map (upper \<circ> snd) (name_dict kg)) \<longrightarrow> name = n1)
         \<and> match_ticker_or_name kg q = Inr (ticker_message q name (upper q))
         \<and> (\<forall>c t. match_ticker_or_name kg q \<noteq> Inr (name_message q c t))"
proof -
  let ?sym = "map_of (symbol_to_name (name_dict kg))"
  obtain name where name: "?sym (upper q) = Some name"
    using symbol_to_name_stored[OF assms(1)] by (auto simp: assms(2))
  have res: "match_ticker_or_name kg q = Inr (ticker_message q name (upper q))"
    using match_ticker[of kg q name] name by (simp add: assms(6))
  have "\<exists>t'. (name, t') \<in> set (name_dict kg) \<and> upper t' = upper q"
    using name by (rule symbol_to_name_SomeD)
  moreover have "distinct (map (upper \<circ> snd) (name_dict kg)) \<longrightarrow> name = n1"
    using symbol_to_name_unique[OF _ assms(1)] name assms(2) by auto
  moreover have "\<forall>c t. match_ticker_or_name kg q \<noteq> Inr (name_message q c t)"
    by (simp add: res ticker_message_neq_name_message)
  ultimately show ?thesis using res by blast
qed

theorem ticker_precedence_witness:
  "(''Microsoft Corporation Common Stock'', ''MSFT'') \<in> set (name_dict (echo_kg msft_named_x))
   \<and> (''MSFT'', ''X'') \<in> set (name_dict (echo_kg msft_named_x))
   \<and> upper ''msft'' = upper ''MSFT'' \<and> lower ''msft'' = lower ''MSFT''
   \<and> match_ticker_or_name (echo_kg msft_named_x) ''msft''
       = Inr (ticker_message ''msft'' ''Microsoft Corporation Common Stock'' ''MSFT'')"
proof -
  let ?kg = "echo_kg msft_named_x"
  have h1: "(''Microsoft Corporation Common Stock'', ''MSFT'') \<in> set (name_dict ?kg)"
    by code_simp
  have h2: "upper ''msft'' = upper ''MSFT''"
    by code_simp
  have h3: "(''MSFT'', ''X'') \<in> set (name_dict ?kg)"
    by code_simp
  have h4: "lower ''msft'' = lower ''MSFT''"
    by code_simp
  have h5: "''Microsoft Corporation Common Stock'' \<noteq> ''MSFT''"
    by simp
  have h6: "strip ''msft'' = ''msft''"
    by code_simp
  have h7: "distinct (map (upper \<circ> snd) (name_dict ?kg))"
    by code_simp
  have e: "upper ''msft'' = ''MSFT''"
    by code_simp
  have h8: "ascii_dict (name_dict ?kg)" and h9: "isascii ''msft''"
    by code_simp+
  from ticker_precedence[OF h1 h2 h3 h4 h5 h6 h8 h9] h7
  have "match_ticker_or_name ?kg ''msft''
          = Inr (ticker_message ''msft'' ''Microsoft Corporation Common Stock'' ''MSFT'')"
    by (auto simp: e)
  with h1 h2 h3 h4 show ?thesis by (intro conjI)
qed

subsection \<open>Queries that match nothing\<close>

text \<open>
  Claim C4 as written takes the input as typed on both sides. On the ticker side the
  tool strips it first: a ticker between blanks equals no stored ticker and no stored
  name, and is recognized as a ticker all the same.
\<close>

theorem padded_query_is_ticker_match:
  "name_dict (echo_kg [(''Tesla Inc. Common Stock'', ''TSLA'')])
     = [(''Tesla Inc. Common Stock'', ''TSLA'')]
   \<and> upper '' TSLA '' \<noteq> upper ''TSLA''
   \<and> lower '' TSLA '' \<noteq> lower ''Tesla Inc. Common Stock''
   \<and> match_ticker_or_name (echo_kg [(''Tesla Inc. Common Stock'', ''TSLA'')]) '' TSLA ''
       = Inr (ticker_message '' TSLA '' ''Tesla Inc. Common Stock'' ''TSLA'')"
  by code_simp

text \<open>
  Claim C4, amended: over an index of ASCII names and tickers, for any ASCII input
  whose stripped form equals no stored ticker up to case, and which as typed equals no stored name up to case, the tool returns the
  not-recognized message with the input as typed. It returns it as a value: the result
  is no exception.
\<close>

theorem unmatched_query_not_recognized:
  assumes "\<forall>(n, t) \<in> set (name_dict kg). upper (strip q) \<noteq> upper t"
    and "\<forall>(n, t) \<in> set (name_dict kg). lower q \<noteq> lower n"
    and "ascii_dict (name_dict kg)" and "isascii q"
  shows "match_ticker_or_name kg q = Inr (not_recognized_message q)"
proof (rule match_none)
  show "map_of (symbol_to_name (name_dict kg)) (upper (strip q)) = None"
    using assms(1) by (force simp: symbol_to_name_None)
  show "filter (\<lambda>name. lower name = lower q) (keys (name_dict kg)) = []"
    using assms(2) by (force simp: filter_empty_conv keys_def)
qed

theorem unmatched_query_not_recognized_witness:
  "match_ticker_or_name (echo_kg tesla_microsoft) ''Tesla''
     = Inr (not_recognized_message ''Tesla'')"
proof -
  have h1: "\<forall>(n, t) \<in> set (name_dict (echo_kg tesla_microsoft)). upper (strip ''Tesla'') \<noteq> upper t"
    by code_simp
  have h2: "\<forall>(n, t) \<in> set (name_dict (echo_kg tesla_microsoft)). lower ''Tesla'' \<noteq> lower n"
    by code_simp
  have h3: "ascii_dict (name_dict (echo_kg tesla_microsoft))" and h4: "isascii ''Tesla''"
    by code_simp+
  show ?thesis using unmatched_query_not_recognized[OF h1 h2 h3 h4] .
qed

subsection \<open>Repeated calls\<close>

text \<open>
  Claim C8: the tool is deterministic, the index being read-only. Over the store, a
  call leaves every dictionary that existed before it as it was, the name dictionary
  of the service object among them, and a second call with the same input, run on the
  store the first call left, returns the same result as the first.
\<close>

theorem match_ticker_or_name_repeatable:
  assumes "r < length h"
  shows "fst (match_ticker_or_name_store r q (snd (match_ticker_or_name_store r q h)))
           = fst (match_ticker_or_name_store r q h)
       \<and> take (length h) (snd (match_ticker_or_name_store r q h)) = h
       \<and> snd (match_ticker_or_name_store r q h) ! r = h ! r"
proof -
  let ?kg = "echo_kg (h ! r)"
  let ?h1 = "h @ [symbol_to_name (h ! r)]"
  have nd: "name_dict ?kg = h ! r" by (simp add: echo_kg_def)
  have first: "match_ticker_or_name_store r q h = (match_ticker_or_name ?kg q, ?h1)"
    using assms nd by (rule match_ticker_or_name_store_eq)
  have r1: "r < length ?h1" using assms by simp
  have same: "?h1 ! r = h ! r" using assms by (simp add: nth_append)
  have "name_dict ?kg = ?h1 ! r" by (simp only: nd same)
  with r1 have second: "match_ticker_or_name_store r q ?h1
      = (match_ticker_or_name ?kg q, ?h1 @ [symbol_to_name (?h1 ! r)])"
    by (rule match_ticker_or_name_store_eq)
  show ?thesis
    by (simp add: first second same)
qed

theorem match_ticker_or_name_repeatable_witness:
  "(0::nat) < length [tesla_microsoft]
   \<and> fst (match_ticker_or_name_store 0 ''tsla''
            (snd (match_ticker_or_name_store 0 ''tsla'' [tesla_microsoft])))
        = fst (match_ticker_or_name_store 0 ''tsla'' [tesla_microsoft])
   \<and> snd (match_ticker_or_name_store 0 ''tsla'' [tesla_microsoft]) ! 0 = tesla_microsoft"
proof -
  have h: "(0::nat) < length [tesla_microsoft]" by simp
  from match_ticker_or_name_repeatable[OF h, of "''tsla''"] h show ?thesis by simp
qed

section \<open>The symbol dictionary\<close>

text \<open>
  Claim C7: the symbol dictionary is a dictionary whose keys are exactly the uppercased
  tickers of the name dictionary. When no two entries share an uppercased ticker, it
  maps the uppercased ticker of every entry to the name of that entry. In general an
  entry that is followed by no entry with the same uppercased ticker is the one found
  under it: of two entries with the same uppercased ticker the later one replaces the
  earlier, and nothing is raised.
\<close>

theorem symbol_to_name_inverse:
  "wf_dict (symbol_to_name d)
   \<and> set (keys (symbol_to_name d)) = (upper \<circ> snd) ` set d
   \<and> (distinct (map (upper \<circ> snd) d) \<and> (n, t) \<in> set d
        \<longrightarrow> dict_getitem (symbol_to_name d) (upper t) = Inr n)
   \<and> (d = xs @ (n', t') # ys \<and> upper t' \<notin> (upper \<circ> snd) ` set ys
        \<longrightarrow> dict_getitem (symbol_to_name d) (upper t') = Inr n')"
proof (intro conjI impI)
  show "wf_dict (symbol_to_name d)"
    unfolding symbol_to_name_def by (rule wf_dict_fold_setitem) (simp add: wf_dict_def)
  have "set (keys (symbol_to_name d)) = dom (map_of (symbol_to_name d))"
    by (simp add: keys_def dom_map_of_conv_image_fst)
  also have "\<dots> = (upper \<circ> snd) ` set d"
    by (force simp: map_of_symbol_to_name dom_map_of_conv_image_fst image_iff)
  finally show "set (keys (symbol_to_name d)) = (upper \<circ> snd) ` set d" .
next
  assume "distinct (map (upper \<circ> snd) d) \<and> (n, t) \<in> set d"
  then have "map_of (symbol_to_name d) (upper t) = Some n"
    using symbol_to_name_unique[of d n t] by blast
  then show "dict_getitem (symbol_to_name d) (upper t) = Inr n"
    by (simp add: dict_getitem_def)
next
  assume a: "d = xs @ (n', t') # ys \<and> upper t' \<notin> (upper \<circ> snd) ` set ys"
  then have "\<forall>(a, b) \<in> set ys. upper b \<noteq> upper t'" by force
  with a have "map_of (symbol_to_name d) (upper t') = Some n'"
    using symbol_to_name_last[of d xs n' t' ys] by blast
  then show "dict_getitem (symbol_to_name d) (upper t') = Inr n'"
    by (simp add: dict_getitem_def)
qed

theorem symbol_to_name_inverse_witness:
  "dict_getitem (symbol_to_name tesla_microsoft) ''MSFT'' = Inr ''Microsoft Corporation Common Stock''
   \<and> dict_getitem (symbol_to_name ab_twice) ''AB'' = Inr ''Beta Group''"
proof -
  have h1: "distinct (map (upper \<circ> snd) tesla_microsoft)
              \<and> (''Microsoft Corporation Common Stock'', ''MSFT'') \<in> set tesla_microsoft"
    by code_simp
  have h2: "ab_twice = [(''Alpha Holdings'', ''ab'')] @ (''Beta Group'', ''AB'') # []
              \<and> upper ''AB'' \<notin> (upper \<circ> snd) ` set []"
    by (simp add: ab_twice_def)
  have e: "upper ''MSFT'' = ''MSFT''" "upper ''AB'' = ''AB''"
    by code_simp+
  note symbol_to_name_inverse [where d = tesla_microsoft
        and n = "''Microsoft Corporation Common Stock''" and t = "''MSFT''",
        THEN conjunct2, THEN conjunct2, THEN conjunct1, rule_format, OF h1]
    symbol_to_name_inverse [where d = ab_twice and xs = "[(''Alpha Holdings'', ''ab'')]"
        and n' = "''Beta Group''" and t' = "''AB''" and ys = "[]",
        THEN conjunct2, THEN conjunct2, THEN conjunct2, rule_format, OF h2]
  then show ?thesis unfolding e by (rule conjI)
qed

section \<open>Looking a ticker up by name\<close>

text \<open>
  Claim C6: over a name dictionary, \<open>get_ticker_by_name\<close> returns for a stored name
  exactly the ticker stored with it, and signals \<open>NotFoundError\<close> for every string
  that is not a stored name, a stored name in another case included.
\<close>

theorem get_ticker_by_name_exact:
  assumes "wf_dict (name_dict kg)"
  shows "((n, t) \<in> set (name_dict kg) \<longrightarrow> get_ticker_by_name kg n = Inr t)
       \<and> (m \<notin> set (keys (name_dict kg)) \<longrightarrow> get_ticker_by_name kg m = Inl NotFoundError)"
proof (intro conjI impI)
  assume "(n, t) \<in> set (name_dict kg)"
  then have "map_of (name_dict kg) n = Some t"
    using assms by (simp add: wf_dict_def)
  then show "get_ticker_by_name kg n = Inr t"
    by (simp add: get_ticker_by_name_def kg_get_ticker_by_name_def)
next
  assume "m \<notin> set (keys (name_dict kg))"
  then have "map_of (name_dict kg) m = None"
    by (simp add: keys_def map_of_eq_None_iff)
  then show "get_ticker_by_name kg m = Inl NotFoundError"
    by (simp add: get_ticker_by_name_def kg_get_ticker_by_name_def)
qed

theorem get_ticker_by_name_exact_witness:
  "get_ticker_by_name (echo_kg tesla_microsoft) ''Microsoft Corporation Common Stock'' = Inr ''MSFT''
   \<and> get_ticker_by_name (echo_kg tesla_microsoft) ''microsoft corporation common stock''
       = Inl NotFoundError"
proof -
  let ?kg = "echo_kg tesla_microsoft"
  have h1: "wf_dict (name_dict ?kg)"
    by code_simp
  have h2: "(''Microsoft Corporation Common Stock'', ''MSFT'') \<in> set (name_dict ?kg)"
    by code_simp
  have h3: "''microsoft corporation common stock'' \<notin> set (keys (name_dict ?kg))"
    by code_simp
  from get_ticker_by_name_exact[OF h1, of "''Microsoft Corporation Common Stock''" "''MSFT''"
        "''microsoft corporation common stock''"] h2 h3
  show ?thesis by blast
qed

section \<open>The data tools\<close>

text \<open>
  Claim C5 as written has every data tool strip and uppercase its argument before
  handing it on. The tools hand on what they were given: a service object that
  answers with the string it receives shows the argument arriving as typed, not in
  symbol form.
\<close>

theorem data_tools_do_not_normalize:
  "upper (strip '' tsla '') = ''TSLA''
   \<and> get_price_history (echo_kg tesla_microsoft) '' tsla '' = '' tsla ''
   \<and> get_detailed_price_history (echo_kg tesla_microsoft) '' tsla '' = '' tsla ''
   \<and> get_dividends_history (echo_kg tesla_microsoft) '' tsla '' = '' tsla ''
   \<and> get_market_capitalization (echo_kg tesla_microsoft) '' tsla '' = '' tsla ''
   \<and> get_eps (echo_kg tesla_microsoft) '' tsla '' = '' tsla ''
   \<and> get_pe_ratio (echo_kg tesla_microsoft) '' tsla '' = '' tsla ''
   \<and> get_info (echo_kg tesla_microsoft) '' tsla '' = '' tsla ''
   \<and> get_price_history (echo_kg tesla_microsoft) '' tsla ''
       \<noteq> kg_get_price_history (echo_kg tesla_microsoft) (upper (strip '' tsla ''))"
  by code_simp

text \<open>
  Claim C5, amended: every data tool, for every ticker string, calls the method of the
  same name of the service object with that string unchanged and returns the method's
  answer unchanged; the tool itself neither strips nor uppercases.
\<close>

theorem data_tools_forward_argument:
  "get_price_history kg t = kg_get_price_history kg t
   \<and> get_detailed_price_history kg t = kg_get_detailed_price_history kg t
   \<and> get_dividends_history kg t = kg_get_dividends_history kg t
   \<and> get_market_capitalization kg t = kg_get_market_capitalization kg t
   \<and> get_eps kg t = kg_get_eps kg t
   \<and> get_pe_ratio kg t = kg_get_pe_ratio kg t
   \<and> get_info kg t = kg_get_info kg t"
  by (simp add: get_price_history_def get_detailed_price_history_def get_dividends_history_def
      get_market_capitalization_def get_eps_def get_pe_ratio_def get_info_def)

end
